theory Spec2Isabelle
  imports Main "HOL-Library.Word"
begin

section \<open>The document type used by \<^verbatim>\<open>include/at/types.hpp\<close>\<close>

text \<open>
  \<^verbatim>\<open>types.hpp\<close> converts its domain types to and from \<^verbatim>\<open>nlohmann::json\<close>
  (\<^verbatim>\<open>using json = nlohmann::json\<close>). The library header \<^verbatim>\<open>json.hpp\<close> is a third-party
  dependency; the operations of it that \<^verbatim>\<open>types.hpp\<close> calls are modelled here after the
  library's documented behaviour, one definition per member function, and every
  exception the library throws is a value of \<open>error\<close>.
\<close>

subsection \<open>Doubles\<close>

text \<open>
  A \<^verbatim>\<open>double\<close> is an IEEE-754 binary64 value, given by its three fields. The header only
  stores and copies doubles; the fields are needed to say when two stored numbers compare
  equal (\<^verbatim>\<open>==\<close> on doubles is not reflexive on NaN and identifies the two zeros).
\<close>

record double =
  sign :: bool
  exponent :: "11 word"
  fraction :: "52 word"

definition double_zero :: double where
  "double_zero = \<lparr>sign = False, exponent = 0, fraction = 0\<rparr>"

definition isnan :: "double \<Rightarrow> bool" where
  "isnan d = (exponent d = 2047 \<and> fraction d \<noteq> 0)"

definition double_eq :: "double \<Rightarrow> double \<Rightarrow> bool" where
  "double_eq a b =
     (\<not> isnan a \<and> \<not> isnan b \<and>
      (a = b \<or> (exponent a = 0 \<and> fraction a = 0 \<and> exponent b = 0 \<and> fraction b = 0)))"

text \<open>Number of binary digits of a natural number.\<close>

fun bit_length :: "nat \<Rightarrow> nat" where
  "bit_length n = (if n = 0 then 0 else Suc (bit_length (n div 2)))"

declare bit_length.simps [simp del]

text \<open>Division by \<open>2 ^ k\<close>, rounding to nearest, ties to even (the default rounding mode).\<close>

definition round_half_even :: "nat \<Rightarrow> nat \<Rightarrow> nat" where
  "round_half_even m k =
     (let q = m div 2 ^ k; r = m mod 2 ^ k; h = 2 ^ (k - 1)
      in if h < r \<or> (r = h \<and> odd q) then q + 1 else q)"

text \<open>
  The double nearest to \<open>\<plusminus>m\<close>, for the conversion of a 64-bit integer:
  \<open>e\<close> is the position of the leading one, \<open>q\<close> the 53-bit significand.
\<close>

definition double_of_magnitude :: "bool \<Rightarrow> nat \<Rightarrow> double" where
  "double_of_magnitude s m =
     (if m = 0 then \<lparr>sign = s, exponent = 0, fraction = 0\<rparr>
      else
        let e = bit_length m - 1;
            q = (if e \<le> 52 then m * 2 ^ (52 - e) else round_half_even m (e - 52))
        in if q = 2 ^ 53
           then \<lparr>sign = s, exponent = of_nat (e + 1 + 1023), fraction = 0\<rparr>
           else \<lparr>sign = s, exponent = of_nat (e + 1023), fraction = of_nat (q - 2 ^ 52)\<rparr>)"

text \<open>\<^verbatim>\<open>static_cast<double>\<close> of an \<^verbatim>\<open>int64_t\<close> and of a \<^verbatim>\<open>uint64_t\<close>.\<close>

definition double_of_int64 :: "64 word \<Rightarrow> double" where
  "double_of_int64 w =
     (if sint w < 0 then double_of_magnitude True (nat (- sint w))
      else double_of_magnitude False (nat (sint w)))"

definition double_of_uint64 :: "64 word \<Rightarrow> double" where
  "double_of_uint64 w = double_of_magnitude False (unat w)"

subsection \<open>Values\<close>

text \<open>
  A \<^verbatim>\<open>json\<close> value is null, a boolean, a number of one of three kinds
  (\<^verbatim>\<open>number_integer\<close>, an \<^verbatim>\<open>int64_t\<close>; \<^verbatim>\<open>number_unsigned\<close>, a \<^verbatim>\<open>uint64_t\<close>;
  \<^verbatim>\<open>number_float\<close>, a \<^verbatim>\<open>double\<close>), a string, an array or an object. An object is kept
  as an association list; every lookup goes through \<open>map_of\<close>, so the order of the
  entries is never observed and the first entry of a key is the one that counts.
\<close>

datatype json =
    JNull
  | JBool bool
  | JInt "64 word"
  | JUInt "64 word"
  | JFloat double
  | JString string
  | JArray "json list"
  | JObject "(string \<times> json) list"

datatype error =
    key_not_found string       \<comment> \<open>\<^verbatim>\<open>json::out_of_range\<close> 403, "key 'k' not found", with the key\<close>
  | index_out_of_range nat     \<comment> \<open>\<^verbatim>\<open>json::out_of_range\<close> 401, with the index\<close>
  | type_error nat             \<comment> \<open>\<^verbatim>\<open>json::type_error\<close>, with its id (302, 304, 305)\<close>
  | parse_error string         \<comment> \<open>\<^verbatim>\<open>json::parse_error\<close>, with the rejected text\<close>
  | runtime_error string       \<comment> \<open>\<^verbatim>\<open>std::runtime_error\<close>, with \<^verbatim>\<open>what()\<close>\<close>
  | string_out_of_range        \<comment> \<open>\<^verbatim>\<open>std::out_of_range\<close> of \<^verbatim>\<open>std::string::substr\<close>\<close>
  | assertion_failure string   \<comment> \<open>the failed \<^verbatim>\<open>assert\<close> of the const \<^verbatim>\<open>operator[]\<close>, with the key\<close>

text \<open>Sequencing of statements that may throw: the first exception ends the function.\<close>

definition bindE :: "error + 'a \<Rightarrow> ('a \<Rightarrow> error + 'b) \<Rightarrow> error + 'b" where
  "bindE r f = (case r of Inl e \<Rightarrow> Inl e | Inr x \<Rightarrow> f x)"

definition is_string :: "json \<Rightarrow> bool" where
  "is_string j = (case j of JString _ \<Rightarrow> True | _ \<Rightarrow> False)"

definition is_null :: "json \<Rightarrow> bool" where
  "is_null j = (case j of JNull \<Rightarrow> True | _ \<Rightarrow> False)"

text \<open>\<^verbatim>\<open>j.get<std::string>()\<close>: the string of a string value, \<^verbatim>\<open>type_error\<close> 302 otherwise.\<close>

definition get_string :: "json \<Rightarrow> error + string" where
  "get_string j = (case j of JString s \<Rightarrow> Inr s | _ \<Rightarrow> Inl (type_error 302))"

text \<open>
  \<^verbatim>\<open>j.get<double>()\<close>: a float as it is, an integer converted; \<^verbatim>\<open>type_error\<close> 302 for
  every other kind of value (a boolean included).
\<close>

definition get_double :: "json \<Rightarrow> error + double" where
  "get_double j =
     (case j of
        JFloat d \<Rightarrow> Inr d
      | JInt i \<Rightarrow> Inr (double_of_int64 i)
      | JUInt u \<Rightarrow> Inr (double_of_uint64 u)
      | _ \<Rightarrow> Inl (type_error 302))"

text \<open>
  \<^verbatim>\<open>j.at(key)\<close>: the checked lookup. On an object without the key it throws
  \<^verbatim>\<open>out_of_range\<close> 403 naming the key; on a value that is no object, \<^verbatim>\<open>type_error\<close> 304.
\<close>

definition at_key :: "json \<Rightarrow> string \<Rightarrow> error + json" where
  "at_key j key =
     (case j of
        JObject m \<Rightarrow> (case map_of m key of Some v \<Rightarrow> Inr v | None \<Rightarrow> Inl (key_not_found key))
      | _ \<Rightarrow> Inl (type_error 304))"

text \<open>\<^verbatim>\<open>j.at(idx)\<close>: the checked array access.\<close>

definition at_index :: "json \<Rightarrow> nat \<Rightarrow> error + json" where
  "at_index j idx =
     (case j of
        JArray xs \<Rightarrow> (if idx < length xs then Inr (xs ! idx) else Inl (index_out_of_range idx))
      | _ \<Rightarrow> Inl (type_error 304))"

text \<open>
  \<^verbatim>\<open>j[key]\<close> on a \<^verbatim>\<open>const json&\<close>: the unchecked lookup. The library asserts that the key
  is present (\<^verbatim>\<open>assert(m_value.object->find(key) != m_value.object->end())\<close>) and
  dereferences the iterator; with the key absent the assertion fails, and the behaviour is
  undefined when assertions are compiled out. No exception names the key. On a value
  that is no object it throws \<^verbatim>\<open>type_error\<close> 305.
\<close>

definition index_const :: "json \<Rightarrow> string \<Rightarrow> error + json" where
  "index_const j key =
     (case j of
        JObject m \<Rightarrow> (case map_of m key of Some v \<Rightarrow> Inr v | None \<Rightarrow> Inl (assertion_failure key))
      | _ \<Rightarrow> Inl (type_error 305))"

text \<open>
  The constructor from a braced list, \<^verbatim>\<open>json{...}\<close>: when every element is an array of two
  values whose first is a string, the result is the object of these key/value pairs
  (an earlier pair wins over a later one with the same key); otherwise it is the array of
  the elements.
\<close>

fun is_key_value :: "json \<Rightarrow> bool" where
  "is_key_value (JArray [JString k, v]) = True"
| "is_key_value _ = False"

fun key_value :: "json \<Rightarrow> string \<times> json" where
  "key_value (JArray [JString k, v]) = (k, v)"
| "key_value j = ([], j)"

definition json_init :: "json list \<Rightarrow> json" where
  "json_init init = (if list_all is_key_value init then JObject (map key_value init) else JArray init)"

text \<open>
  \<^verbatim>\<open>operator==\<close> on \<^verbatim>\<open>json\<close>: values of the same kind are compared by content (objects
  as maps); an integer and a float are compared after converting the integer to
  \<^verbatim>\<open>double\<close>; a signed and an unsigned integer after converting the unsigned one to
  \<^verbatim>\<open>int64_t\<close>; values of different kinds are different.
\<close>

function (sequential) json_eq :: "json \<Rightarrow> json \<Rightarrow> bool" where
  "json_eq JNull JNull = True"
| "json_eq (JBool a) (JBool b) = (a = b)"
| "json_eq (JString a) (JString b) = (a = b)"
| "json_eq (JInt a) (JInt b) = (a = b)"
| "json_eq (JUInt a) (JUInt b) = (a = b)"
| "json_eq (JFloat a) (JFloat b) = double_eq a b"
| "json_eq (JInt a) (JFloat b) = double_eq (double_of_int64 a) b"
| "json_eq (JFloat a) (JInt b) = double_eq a (double_of_int64 b)"
| "json_eq (JUInt a) (JFloat b) = double_eq (double_of_uint64 a) b"
| "json_eq (JFloat a) (JUInt b) = double_eq a (double_of_uint64 b)"
| "json_eq (JUInt a) (JInt b) = (a = b)"
| "json_eq (JInt a) (JUInt b) = (a = b)"
| "json_eq (JArray xs) (JArray ys) =
     (length xs = length ys \<and> (\<forall>(x, y) \<in> set (zip xs ys). json_eq x y))"
| "json_eq (JObject m) (JObject n) =
     (set (map fst m) = set (map fst n) \<and>
      (\<forall>k \<in> set (map fst m).
         case map_of m k of
           None \<Rightarrow> False
         | Some v \<Rightarrow> (case map_of n k of None \<Rightarrow> False | Some w \<Rightarrow> json_eq v w)))"
| "json_eq _ _ = False"
  by pat_completeness auto
termination
proof -
  have elem: "x \<in> set xs \<Longrightarrow> size x < Suc (size_list size xs)"
    for x :: json and xs
    by (induction xs) auto
  have entry: "(k, v) \<in> set m \<Longrightarrow> size v < Suc (size_list (size_prod (\<lambda>x. 0) size) m)"
    for k :: string and v :: json and m
    by (induction m) auto
  show ?thesis
    by (relation "measure (\<lambda>(a, b). size a)")
       (auto simp: elem entry dest: set_zip_leftD map_of_SomeD)
qed

section \<open>The helpers of \<^verbatim>\<open>types.hpp\<close>\<close>

text \<open>
  \<^verbatim>\<open>::toupper\<close> of \<^verbatim>\<open><cctype>\<close> in the "C" locale: the letters \<^verbatim>\<open>a\<close> to \<^verbatim>\<open>z\<close> (97 to 122)
  go to \<^verbatim>\<open>A\<close> to \<^verbatim>\<open>Z\<close>, every other character stays.
\<close>

definition toupper_char :: "char \<Rightarrow> char" where
  "toupper_char c =
     (let n = (of_char c :: nat) in if 97 \<le> n \<and> n \<le> 122 then char_of (n - 32) else c)"

text \<open>
  \<^verbatim>\<open>at::toupper(std::string& str)\<close>: \<^verbatim>\<open>transform\<close> over the whole string, in place; the
  model returns the new content.
\<close>

definition toupper :: "string \<Rightarrow> string" where
  "toupper str = map toupper_char str"

text \<open>
  \<^verbatim>\<open>numeric_string(const json& field)\<close>. The message is built by
  \<^verbatim>\<open>stream << "field " << field << " is not string or null"\<close>; the rendering of a
  document on a stream belongs to the library and is the parameter \<open>dump\<close>.
\<close>

definition numeric_string :: "(json \<Rightarrow> string) \<Rightarrow> json \<Rightarrow> error + string" where
  "numeric_string dump field =
     (if is_string field then get_string field
      else if is_null field then Inr ''0.0''
      else Inl (runtime_error (''field '' @ dump field @ '' is not string or null'')))"

section \<open>\<^verbatim>\<open>currency_pair_t\<close>\<close>

text \<open>
  The class has the private member \<^verbatim>\<open>_pair\<close> (here \<open>priv_pair\<close>) and the public
  members \<^verbatim>\<open>first\<close> and \<^verbatim>\<open>second\<close>.
\<close>

record currency_pair_t =
  priv_pair :: "string \<times> string"
  first :: string
  second :: string

text \<open>\<^verbatim>\<open>currency_pair_t() {}\<close>: every string member is default-constructed, so empty.\<close>

definition currency_pair_t_default :: currency_pair_t where
  "currency_pair_t_default = \<lparr>priv_pair = ([], []), first = [], second = []\<rparr>"

text \<open>\<^verbatim>\<open>currency_pair_t(const std::string& first, const std::string& second)\<close>.\<close>

definition currency_pair_t_ctor :: "string \<Rightarrow> string \<Rightarrow> currency_pair_t" where
  "currency_pair_t_ctor fst_arg snd_arg =
     (let ucFirst = toupper fst_arg;
          ucSecond = toupper snd_arg;
          p = (ucFirst, ucSecond)
      in \<lparr>priv_pair = p, first = fst p, second = snd p\<rparr>)"

definition str :: "currency_pair_t \<Rightarrow> string" where
  "str c = first c @ ''_'' @ second c"

text \<open>An output stream is the text written to it so far.\<close>

type_synonym ostream = string

definition ostream_currency_pair :: "ostream \<Rightarrow> currency_pair_t \<Rightarrow> ostream" where
  "ostream_currency_pair o_stream pair = o_stream @ str pair"

definition to_json_currency_pair :: "currency_pair_t \<Rightarrow> json" where
  "to_json_currency_pair c = json_init [JString (first c), JString (second c)]"

text \<open>
  \<^verbatim>\<open>from_json(const json& j, currency_pair_t& c)\<close> assigns the two public members of
  \<open>c\<close>; the model returns the updated object.
\<close>

definition from_json_currency_pair :: "json \<Rightarrow> currency_pair_t \<Rightarrow> error + currency_pair_t" where
  "from_json_currency_pair j c =
     bindE (at_index j 0) (\<lambda>j0. bindE (get_string j0) (\<lambda>s0.
     bindE (at_index j 1) (\<lambda>j1. bindE (get_string j1) (\<lambda>s1.
     Inr (c\<lparr>first := s0, second := s1\<rparr>)))))"

section \<open>\<^verbatim>\<open>hash_t\<close> and \<^verbatim>\<open>coin_t\<close>\<close>

type_synonym hash_t = string

text \<open>
  \<^verbatim>\<open>to_json(json& j, const hash_t& a) { j = json::parse(a); }\<close>. The parser of the
  library is the parameter \<open>parse\<close>: it returns the document a text denotes, or the
  \<^verbatim>\<open>parse_error\<close> it throws on a text that is no JSON document.
\<close>

definition to_json_hash :: "(string \<Rightarrow> error + json) \<Rightarrow> hash_t \<Rightarrow> error + json" where
  "to_json_hash parse a = parse a"

definition from_json_hash :: "json \<Rightarrow> error + hash_t" where
  "from_json_hash j = get_string j"

record coin_t =
  name :: string
  symbol :: string
  status :: string

definition to_json_coin :: "coin_t \<Rightarrow> json" where
  "to_json_coin c =
     json_init [json_init [JString ''name'', JString (name c)],
                json_init [JString ''symbol'', JString (symbol c)],
                json_init [JString ''status'', JString (status c)]]"

definition from_json_coin :: "json \<Rightarrow> coin_t \<Rightarrow> error + coin_t" where
  "from_json_coin j c =
     bindE (at_key j ''name'') (\<lambda>j0. bindE (get_string j0) (\<lambda>s0.
     bindE (at_key j ''symbol'') (\<lambda>j1. bindE (get_string j1) (\<lambda>s1.
     bindE (at_key j ''status'') (\<lambda>j2. bindE (get_string j2) (\<lambda>s2.
     Inr (c\<lparr>name := s0, symbol := s1, status := s2\<rparr>)))))))"

section \<open>\<^verbatim>\<open>deposit_limit_t\<close> and \<^verbatim>\<open>deposit_info_t\<close>\<close>

text \<open>
  The members \<^verbatim>\<open>min\<close> and \<^verbatim>\<open>max\<close> are \<open>min_l\<close> and \<open>max_l\<close> here, the member
  \<^verbatim>\<open>method\<close> is \<open>method_d\<close>, and the \<^verbatim>\<open>limit\<close> and \<^verbatim>\<open>pair\<close> members of the later
  structs carry a suffix for their struct, since a record field is a constant of the
  theory.
\<close>

record deposit_limit_t =
  min_l :: double
  max_l :: double

definition to_json_deposit_limit :: "deposit_limit_t \<Rightarrow> json" where
  "to_json_deposit_limit d =
     json_init [json_init [JString ''min'', JFloat (min_l d)],
                json_init [JString ''max'', JFloat (max_l d)]]"

definition from_json_deposit_limit :: "json \<Rightarrow> deposit_limit_t \<Rightarrow> error + deposit_limit_t" where
  "from_json_deposit_limit j d =
     bindE (at_key j ''min'') (\<lambda>j0. bindE (get_double j0) (\<lambda>x0.
     bindE (at_key j ''max'') (\<lambda>j1. bindE (get_double j1) (\<lambda>x1.
     Inr (d\<lparr>min_l := x0, max_l := x1\<rparr>)))))"

text \<open>
  \<^verbatim>\<open>j.get<deposit_limit_t>()\<close>: the library value-initialises a \<^verbatim>\<open>deposit_limit_t\<close> and
  passes it to \<^verbatim>\<open>from_json\<close>.
\<close>

definition get_deposit_limit :: "json \<Rightarrow> error + deposit_limit_t" where
  "get_deposit_limit j = from_json_deposit_limit j \<lparr>min_l = double_zero, max_l = double_zero\<rparr>"

record deposit_info_t =
  limit :: deposit_limit_t
  fee :: double
  currency :: string
  method_d :: string

definition to_json_deposit_info :: "deposit_info_t \<Rightarrow> json" where
  "to_json_deposit_info d =
     json_init [json_init [JString ''limit'', to_json_deposit_limit (limit d)],
                json_init [JString ''fee'', JFloat (fee d)],
                json_init [JString ''currency'', JString (currency d)],
                json_init [JString ''method'', JString (method_d d)]]"

text \<open>
  \<^verbatim>\<open>from_json(const json& j, deposit_info_t& d)\<close> reads the limit with the unchecked
  \<^verbatim>\<open>j["limit"]["max"]\<close> and \<^verbatim>\<open>j["limit"]["min"]\<close>, and the other three members with
  \<^verbatim>\<open>at\<close>.
\<close>

definition from_json_deposit_info :: "json \<Rightarrow> deposit_info_t \<Rightarrow> error + deposit_info_t" where
  "from_json_deposit_info j d =
     bindE (index_const j ''limit'') (\<lambda>l0. bindE (index_const l0 ''max'') (\<lambda>j0.
     bindE (get_double j0) (\<lambda>x0.
     bindE (index_const j ''limit'') (\<lambda>l1. bindE (index_const l1 ''min'') (\<lambda>j1.
     bindE (get_double j1) (\<lambda>x1.
     bindE (at_key j ''fee'') (\<lambda>j2. bindE (get_double j2) (\<lambda>x2.
     bindE (at_key j ''currency'') (\<lambda>j3. bindE (get_string j3) (\<lambda>s3.
     bindE (at_key j ''method'') (\<lambda>j4. bindE (get_string j4) (\<lambda>s4.
     Inr (d\<lparr>limit := (limit d)\<lparr>max_l := x0, min_l := x1\<rparr>,
            fee := x2, currency := s3, method_d := s4\<rparr>)))))))))))))"

section \<open>\<^verbatim>\<open>exchange_info_t\<close> and \<^verbatim>\<open>market_info_t\<close>\<close>

text \<open>
  \<^verbatim>\<open>str.find_last_of(chars)\<close>: the greatest position of \<open>str\<close> that holds a character
  of \<open>chars\<close>; \<^verbatim>\<open>std::string::npos\<close> is \<open>None\<close>.
\<close>

fun find_last_of :: "string \<Rightarrow> string \<Rightarrow> nat option" where
  "find_last_of [] chars = None"
| "find_last_of (c # cs) chars =
     (case find_last_of cs chars of
        Some i \<Rightarrow> Some (Suc i)
      | None \<Rightarrow> (if c \<in> set chars then Some 0 else None))"

text \<open>
  \<^verbatim>\<open>str.substr(pos, count)\<close>, with \<open>None\<close> for the default count \<^verbatim>\<open>npos\<close>; it throws
  \<^verbatim>\<open>std::out_of_range\<close> when \<open>pos\<close> is beyond the end.
\<close>

definition substr :: "string \<Rightarrow> nat \<Rightarrow> nat option \<Rightarrow> error + string" where
  "substr s pos count =
     (if length s < pos then Inl string_out_of_range
      else Inr (case count of None \<Rightarrow> drop pos s | Some n \<Rightarrow> take n (drop pos s)))"

text \<open>
  The statements that derive the pair from \<^verbatim>\<open>pair_str\<close>, the same in both
  \<^verbatim>\<open>from_json\<close> functions below; \<open>pair\<close> is the member \<^verbatim>\<open>m.pair\<close> before them, the result
  is the member after them:
  \<^verbatim>\<open>
    std::size_t delimiter_it = pair_str.find_last_of("_");
    if (delimiter_it != std::string::npos) {
        m.pair = currency_pair_t(pair_str.substr(0, delimiter_it),
                                 pair_str.substr(delimiter_it + 1));
    }
  \<close>
\<close>

definition split_pair_str :: "string \<Rightarrow> currency_pair_t \<Rightarrow> error + currency_pair_t" where
  "split_pair_str pair_str pair =
     (case find_last_of pair_str ''_'' of
        None \<Rightarrow> Inr pair
      | Some delimiter_it \<Rightarrow>
          bindE (substr pair_str 0 (Some delimiter_it)) (\<lambda>s0.
          bindE (substr pair_str (delimiter_it + 1) None) (\<lambda>s1.
          Inr (currency_pair_t_ctor s0 s1))))"

record exchange_info_t =
  pair_e :: currency_pair_t
  limit_e :: deposit_limit_t
  rate :: double
  miner_fee :: double

definition to_json_exchange_info :: "exchange_info_t \<Rightarrow> json" where
  "to_json_exchange_info m =
     json_init [json_init [JString ''pair'', JString (str (pair_e m))],
                json_init [JString ''limit'', to_json_deposit_limit (limit_e m)],
                json_init [JString ''rate'', JFloat (rate m)],
                json_init [JString ''miner_fee'', JFloat (miner_fee m)]]"

definition from_json_exchange_info :: "json \<Rightarrow> exchange_info_t \<Rightarrow> error + exchange_info_t" where
  "from_json_exchange_info j m =
     bindE (at_key j ''limit'') (\<lambda>j0. bindE (get_deposit_limit j0) (\<lambda>l.
     bindE (at_key j ''rate'') (\<lambda>j1. bindE (get_double j1) (\<lambda>x1.
     bindE (at_key j ''miner_fee'') (\<lambda>j2. bindE (get_double j2) (\<lambda>x2.
     bindE (at_key j ''pair'') (\<lambda>j3. bindE (get_string j3) (\<lambda>pair_str.
     bindE (split_pair_str pair_str (pair_e m)) (\<lambda>p.
     Inr (m\<lparr>limit_e := l, rate := x1, miner_fee := x2, pair_e := p\<rparr>))))))))))"

record market_info_t =
  pair_m :: currency_pair_t
  limit_m :: deposit_limit_t
  maker_fee :: double
  taker_fee :: double

definition to_json_market_info :: "market_info_t \<Rightarrow> json" where
  "to_json_market_info m =
     json_init [json_init [JString ''pair'', JString (str (pair_m m))],
                json_init [JString ''limit'', to_json_deposit_limit (limit_m m)],
                json_init [JString ''taker_fee'', JFloat (taker_fee m)],
                json_init [JString ''maker_fee'', JFloat (maker_fee m)]]"

definition from_json_market_info :: "json \<Rightarrow> market_info_t \<Rightarrow> error + market_info_t" where
  "from_json_market_info j m =
     bindE (at_key j ''limit'') (\<lambda>j0. bindE (get_deposit_limit j0) (\<lambda>l.
     bindE (at_key j ''maker_fee'') (\<lambda>j1. bindE (get_double j1) (\<lambda>x1.
     bindE (at_key j ''taker_fee'') (\<lambda>j2. bindE (get_double j2) (\<lambda>x2.
     bindE (at_key j ''pair'') (\<lambda>j3. bindE (get_string j3) (\<lambda>pair_str.
     bindE (split_pair_str pair_str (pair_m m)) (\<lambda>p.
     Inr (m\<lparr>limit_m := l, maker_fee := x1, taker_fee := x2, pair_m := p\<rparr>))))))))))"

section \<open>\<^verbatim>\<open>status_t\<close>\<close>

text \<open>
  \<^verbatim>\<open>enum class status_t : char\<close>: a value of the type is a \<^verbatim>\<open>char\<close>; the nine
  enumerators are \<^verbatim>\<open>'a'\<close> and the eight characters after it.
\<close>

type_synonym status_t = char

definition no_deposists :: status_t where "no_deposists = CHR ''a''"
definition initial :: status_t where "initial = CHR ''b''"
definition received :: status_t where "received = CHR ''c''"
definition complete :: status_t where "complete = CHR ''d''"
definition settled :: status_t where "settled = CHR ''e''"
definition pending :: status_t where "pending = CHR ''f''"
definition failed :: status_t where "failed = CHR ''g''"
definition partial :: status_t where "partial = CHR ''h''"
definition expired :: status_t where "expired = CHR ''i''"

text \<open>\<^verbatim>\<open>operator<<(std::ostream& o, const status_t& s)\<close>: the \<^verbatim>\<open>switch\<close>, case by case.\<close>

definition ostream_status :: "ostream \<Rightarrow> status_t \<Rightarrow> ostream" where
  "ostream_status o_stream s =
     (if s = no_deposists then o_stream @ ''no_deposists''
      else if s = initial then o_stream @ ''initial''
      else if s = received then o_stream @ ''received''
      else if s = complete then o_stream @ ''complete''
      else if s = settled then o_stream @ ''settled''
      else if s = pending then o_stream @ ''pending''
      else if s = failed then o_stream @ ''failed''
      else if s = partial then o_stream @ ''partial''
      else o_stream @ ''expired'')"

section \<open>Shapes of documents\<close>

text \<open>
  The vocabulary in which the properties below speak about a document: that a member of
  it decodes as a number or as a limit, and the shape of a deposit-info document
  (\<^verbatim>\<open>{"limit": {"min": n, "max": n}, "fee": n, "currency": s, "method": s}\<close>).
  A number of a document is an integer or a float that is not NaN.
\<close>

definition decodes_double :: "json \<Rightarrow> string \<Rightarrow> bool" where
  "decodes_double j key =
     (case bindE (at_key j key) get_double of Inr _ \<Rightarrow> True | Inl _ \<Rightarrow> False)"

definition decodes_limit :: "json \<Rightarrow> bool" where
  "decodes_limit j =
     (case bindE (at_key j ''limit'') get_deposit_limit of Inr _ \<Rightarrow> True | Inl _ \<Rightarrow> False)"

definition is_number :: "json \<Rightarrow> bool" where
  "is_number j =
     (case j of JInt _ \<Rightarrow> True | JUInt _ \<Rightarrow> True | JFloat d \<Rightarrow> \<not> isnan d | _ \<Rightarrow> False)"

definition field_is :: "(json \<Rightarrow> bool) \<Rightarrow> (string \<times> json) list \<Rightarrow> string \<Rightarrow> bool" where
  "field_is P m key = (case map_of m key of Some v \<Rightarrow> P v | None \<Rightarrow> False)"

definition is_deposit_limit_doc :: "json \<Rightarrow> bool" where
  "is_deposit_limit_doc j =
     (case j of
        JObject m \<Rightarrow>
          set (map fst m) = {''min'', ''max''} \<and>
          field_is is_number m ''min'' \<and> field_is is_number m ''max''
      | _ \<Rightarrow> False)"

definition is_deposit_info_doc :: "json \<Rightarrow> bool" where
  "is_deposit_info_doc j =
     (case j of
        JObject m \<Rightarrow>
          set (map fst m) = {''limit'', ''fee'', ''currency'', ''method''} \<and>
          field_is is_deposit_limit_doc m ''limit'' \<and> field_is is_number m ''fee'' \<and>
          field_is is_string m ''currency'' \<and> field_is is_string m ''method''
      | _ \<Rightarrow> False)"

section \<open>Upper-casing and equality as the properties mean them\<close>

text \<open>
  Upper-casing, said without the arithmetic of \<^verbatim>\<open>::toupper\<close>: each of the 26 small letters
  goes to the capital letter at the same place of the alphabet, every other character
  stays.
\<close>

definition upper_letter :: "char \<Rightarrow> char" where
  "upper_letter c =
     (case map_of (zip ''abcdefghijklmnopqrstuvwxyz'' ''ABCDEFGHIJKLMNOPQRSTUVWXYZ'') c of
        Some u \<Rightarrow> u
      | None \<Rightarrow> c)"

definition upper_cased :: "string \<Rightarrow> string" where
  "upper_cased s = map upper_letter s"


text \<open>
  A natural number fits a double when its binary digits below the 53 leading ones are
  zero: it is then a 53-bit significand times a power of two.
\<close>

definition fits_double :: "nat \<Rightarrow> bool" where
  "fits_double m = (m mod 2 ^ (bit_length m - 53) = 0)"





section \<open>Objects and documents used as examples\<close>

text \<open>
  \<^verbatim>\<open>j.get<T>()\<close> value-initialises a \<^verbatim>\<open>T\<close> and passes it to \<^verbatim>\<open>from_json\<close>; these are
  the value-initialised objects: the pair default-constructed, every double zero.
\<close>

definition deposit_info_t_default :: deposit_info_t where
  "deposit_info_t_default =
     \<lparr>limit = \<lparr>min_l = double_zero, max_l = double_zero\<rparr>, fee = double_zero,
      currency = [], method_d = []\<rparr>"

definition exchange_info_t_default :: exchange_info_t where
  "exchange_info_t_default =
     \<lparr>pair_e = currency_pair_t_default, limit_e = \<lparr>min_l = double_zero, max_l = double_zero\<rparr>,
      rate = double_zero, miner_fee = double_zero\<rparr>"

definition market_info_t_default :: market_info_t where
  "market_info_t_default =
     \<lparr>pair_m = currency_pair_t_default, limit_m = \<lparr>min_l = double_zero, max_l = double_zero\<rparr>,
      maker_fee = double_zero, taker_fee = double_zero\<rparr>"

text \<open>
  A document with the members of an exchange info and of a market info, for a given pair
  string.
\<close>

definition info_doc :: "string \<Rightarrow> json" where
  "info_doc pair_str =
     JObject [(''pair'', JString pair_str),
              (''limit'', JObject [(''min'', JFloat double_zero), (''max'', JInt 5)]),
              (''rate'', JFloat double_zero), (''miner_fee'', JUInt 1),
              (''taker_fee'', JFloat double_zero), (''maker_fee'', JInt 2)]"



section \<open>Basic facts\<close>

lemma bindE_Inl: "bindE (Inl e) f = Inl e"
  by (simp add: bindE_def)

lemma bindE_Inr: "bindE (Inr x) f = f x"
  by (simp add: bindE_def)

text \<open>The unfoldings that evaluate the functions on a concrete string or document.\<close>

lemmas toupper_eval = toupper_def toupper_char_def char_of_def bit_Suc bit_0

lemmas decode_eval = decodes_limit_def decodes_double_def at_key_def bindE_def get_double_def
  get_deposit_limit_def from_json_deposit_limit_def

subsection \<open>Upper-casing\<close>

lemma toupper_char_code:
  "(of_char (toupper_char c) :: nat) =
     (if 97 \<le> (of_char c :: nat) \<and> (of_char c :: nat) \<le> 122 then of_char c - 32 else of_char c)"
  by (auto simp: toupper_char_def Let_def)

lemma toupper_char_idem: "toupper_char (toupper_char c) = toupper_char c"
  by (rule of_char_eqI[where 'a = nat]) (auto simp: toupper_char_code)

lemma toupper_idem: "toupper (toupper s) = toupper s"
  by (simp add: toupper_def toupper_char_idem)

lemma toupper_char_underscore: "toupper_char c = CHR ''_'' \<longleftrightarrow> c = CHR ''_''"
proof -
  have "toupper_char c = CHR ''_'' \<longleftrightarrow> (of_char (toupper_char c) :: nat) = of_char (CHR ''_'')"
    by (simp only: of_char_eq_iff)
  also have "\<dots> \<longleftrightarrow> (of_char c :: nat) = of_char (CHR ''_'')"
    by (auto simp: toupper_char_code)
  also have "\<dots> \<longleftrightarrow> c = CHR ''_''"
    by (simp only: of_char_eq_iff)
  finally show ?thesis .
qed

lemma underscore_in_toupper: "CHR ''_'' \<in> set (toupper s) \<longleftrightarrow> CHR ''_'' \<in> set s"
proof -
  have "CHR ''_'' = toupper_char c \<longleftrightarrow> c = CHR ''_''" for c
    using toupper_char_underscore[of c] by auto
  then show ?thesis
    by (induction s) (auto simp: toupper_def)
qed

text \<open>\<^verbatim>\<open>at::toupper\<close> upper-cases: it agrees with the table of the letters.\<close>

lemma lower_letter_code:
  "c \<in> set ''abcdefghijklmnopqrstuvwxyz'' \<longleftrightarrow> 97 \<le> (of_char c :: nat) \<and> (of_char c :: nat) \<le> 122"
proof
  assume "c \<in> set ''abcdefghijklmnopqrstuvwxyz''"
  then show "97 \<le> (of_char c :: nat) \<and> (of_char c :: nat) \<le> 122"
    by auto
next
  assume r: "97 \<le> (of_char c :: nat) \<and> (of_char c :: nat) \<le> 122"
  have l: "map char_of [97..<123::nat] = ''abcdefghijklmnopqrstuvwxyz''"
    by (simp add: upt_rec char_of_def bit_Suc bit_0)
  have "(of_char c :: nat) \<in> set [97..<123]"
    unfolding set_upt atLeastLessThan_iff using r by linarith
  then have "char_of (of_char c :: nat) \<in> set (map char_of [97..<123::nat])"
    by (simp only: set_map image_eqI)
  then show "c \<in> set ''abcdefghijklmnopqrstuvwxyz''"
    by (simp only: l char_of_char)
qed

lemma toupper_char_upper_letter: "toupper_char c = upper_letter c"
proof (cases "c \<in> set ''abcdefghijklmnopqrstuvwxyz''")
  case True
  then show ?thesis
    by (auto simp: upper_letter_def toupper_char_def char_of_def bit_Suc bit_0)
next
  case False
  then have "map_of (zip ''abcdefghijklmnopqrstuvwxyz'' ''ABCDEFGHIJKLMNOPQRSTUVWXYZ'') c = None"
    using map_of_zip_is_None[of "''abcdefghijklmnopqrstuvwxyz''" "''ABCDEFGHIJKLMNOPQRSTUVWXYZ''" c]
    by simp
  then have u: "upper_letter c = c"
    by (simp only: upper_letter_def option.case)
  have "\<not> (97 \<le> (of_char c :: nat) \<and> (of_char c :: nat) \<le> 122)"
    using False lower_letter_code[of c] by blast
  then have "toupper_char c = c"
    by (auto simp: toupper_char_def Let_def)
  with u show ?thesis
    by simp
qed

lemma toupper_upper_cased: "toupper s = upper_cased s"
  by (simp add: toupper_def upper_cased_def toupper_char_upper_letter)

subsection \<open>The pair and its display string\<close>

lemma ctor_first: "first (currency_pair_t_ctor a b) = toupper a"
  by (simp add: currency_pair_t_ctor_def Let_def)

lemma ctor_second: "second (currency_pair_t_ctor a b) = toupper b"
  by (simp add: currency_pair_t_ctor_def Let_def)

lemma ctor_toupper: "currency_pair_t_ctor (toupper b) (toupper q) = currency_pair_t_ctor b q"
  by (simp add: currency_pair_t_ctor_def Let_def toupper_idem)

lemma str_ctor: "str (currency_pair_t_ctor b q) = toupper b @ ''_'' @ toupper q"
  by (simp add: str_def ctor_first ctor_second)

lemma str_default: "str currency_pair_t_default = ''_''"
  by (simp add: str_def currency_pair_t_default_def)

subsection \<open>Splitting at the last delimiter\<close>

lemma find_last_of_none: "find_last_of s chars = None \<longleftrightarrow> set s \<inter> set chars = {}"
  by (induction s) (auto split: option.splits)

lemma find_last_of_append:
  "c \<in> set chars \<Longrightarrow> set q \<inter> set chars = {} \<Longrightarrow>
     find_last_of (b @ c # q) chars = Some (length b)"
  by (induction b) (auto simp: find_last_of_none split: option.splits)

lemma find_last_of_less: "find_last_of s chars = Some i \<Longrightarrow> i < length s"
  by (induction s arbitrary: i) (auto split: option.splits if_splits)

text \<open>Every string with a delimiter is a part, the last delimiter, and a part without one.\<close>

lemma last_delimiter_exists:
  "CHR ''_'' \<in> set s \<Longrightarrow> \<exists>b q. s = b @ ''_'' @ q \<and> CHR ''_'' \<notin> set q"
  using split_list_last[of "CHR ''_''" s] by auto

lemma split_pair_str_found:
  assumes "CHR ''_'' \<notin> set q"
  shows "split_pair_str (b @ ''_'' @ q) p = Inr (currency_pair_t_ctor b q)"
proof -
  have "find_last_of (b @ CHR ''_'' # q) ''_'' = Some (length b)"
    using assms by (intro find_last_of_append) auto
  then show ?thesis
    by (simp add: split_pair_str_def substr_def bindE_def)
qed

lemma split_pair_str_none:
  assumes "CHR ''_'' \<notin> set s"
  shows "split_pair_str s p = Inr p"
proof -
  have "find_last_of s ''_'' = None"
    using assms by (simp add: find_last_of_none)
  then show ?thesis
    by (simp add: split_pair_str_def)
qed

text \<open>The two calls of \<^verbatim>\<open>substr\<close> never throw: the position found is inside the string.\<close>

lemma split_pair_str_total: "\<exists>p'. split_pair_str s p = Inr p'"
  by (auto simp: split_pair_str_def substr_def bindE_def split: option.splits
      dest: find_last_of_less)

lemma split_pair_str_of_str:
  assumes "CHR ''_'' \<notin> set q"
  shows "split_pair_str (str (currency_pair_t_ctor b q)) p = Inr (currency_pair_t_ctor b q)"
proof -
  have "CHR ''_'' \<notin> set (toupper q)"
    using assms by (simp add: underscore_in_toupper)
  then have "split_pair_str (toupper b @ ''_'' @ toupper q) p =
      Inr (currency_pair_t_ctor (toupper b) (toupper q))"
    by (rule split_pair_str_found)
  then show ?thesis
    by (simp only: str_ctor ctor_toupper)
qed

subsection \<open>The pair member of a decoded exchange info and market info\<close>

lemma decodes_doubleE:
  assumes "decodes_double j key"
  obtains x where "bindE (at_key j key) get_double = Inr x"
  using assms by (auto simp: decodes_double_def split: sum.splits)

lemma decodes_limitE:
  assumes "decodes_limit j"
  obtains l where "bindE (at_key j ''limit'') get_deposit_limit = Inr l"
  using assms by (auto simp: decodes_limit_def split: sum.splits)

lemma from_json_exchange_info_pair:
  assumes "decodes_limit j" "decodes_double j ''rate''" "decodes_double j ''miner_fee''"
    and "at_key j ''pair'' = Inr (JString pair_str)"
    and "split_pair_str pair_str (pair_e m) = Inr p"
  shows "\<exists>m'. from_json_exchange_info j m = Inr m' \<and> pair_e m' = p"
proof -
  obtain l where l: "bindE (at_key j ''limit'') get_deposit_limit = Inr l"
    using assms(1) by (rule decodes_limitE)
  obtain x1 where x1: "bindE (at_key j ''rate'') get_double = Inr x1"
    using assms(2) by (rule decodes_doubleE)
  obtain x2 where x2: "bindE (at_key j ''miner_fee'') get_double = Inr x2"
    using assms(3) by (rule decodes_doubleE)
  show ?thesis
    using l x1 x2 assms(4,5)
    by (auto simp: from_json_exchange_info_def get_string_def bindE_def split: sum.splits)
qed

lemma from_json_market_info_pair:
  assumes "decodes_limit j" "decodes_double j ''maker_fee''" "decodes_double j ''taker_fee''"
    and "at_key j ''pair'' = Inr (JString pair_str)"
    and "split_pair_str pair_str (pair_m m) = Inr p"
  shows "\<exists>m'. from_json_market_info j m = Inr m' \<and> pair_m m' = p"
proof -
  obtain l where l: "bindE (at_key j ''limit'') get_deposit_limit = Inr l"
    using assms(1) by (rule decodes_limitE)
  obtain x1 where x1: "bindE (at_key j ''maker_fee'') get_double = Inr x1"
    using assms(2) by (rule decodes_doubleE)
  obtain x2 where x2: "bindE (at_key j ''taker_fee'') get_double = Inr x2"
    using assms(3) by (rule decodes_doubleE)
  show ?thesis
    using l x1 x2 assms(4,5)
    by (auto simp: from_json_market_info_def get_string_def bindE_def split: sum.splits)
qed

lemma to_json_exchange_info_pair:
  "at_key (to_json_exchange_info m) ''pair'' = Inr (JString (str (pair_e m)))"
  by (simp add: to_json_exchange_info_def json_init_def at_key_def)

lemma to_json_market_info_pair:
  "at_key (to_json_market_info m) ''pair'' = Inr (JString (str (pair_m m)))"
  by (simp add: to_json_market_info_def json_init_def at_key_def)

lemma info_doc_decodes:
  "decodes_limit (info_doc s) \<and>
   decodes_double (info_doc s) ''rate'' \<and> decodes_double (info_doc s) ''miner_fee'' \<and>
   decodes_double (info_doc s) ''maker_fee'' \<and> decodes_double (info_doc s) ''taker_fee'' \<and>
   at_key (info_doc s) ''pair'' = Inr (JString s)"
  by (simp add: info_doc_def decode_eval)

section \<open>The pair decoded from a delimited string\<close>

text \<open>
  C1. For every document whose \<^verbatim>\<open>pair\<close> member is a string with at least one \<^verbatim>\<open>_\<close>,
  that is (by \<open>last_delimiter_exists\<close>) a string \<open>b @ ''_'' @ q\<close> with no \<^verbatim>\<open>_\<close> in \<open>q\<close>:
  \<^verbatim>\<open>from_json\<close> for \<^verbatim>\<open>exchange_info_t\<close>, and likewise for \<^verbatim>\<open>market_info_t\<close>, returns an
  object whose pair has the part before the last \<^verbatim>\<open>_\<close> as \<^verbatim>\<open>first\<close> and the part after it
  as \<^verbatim>\<open>second\<close>, both upper-cased: every small letter replaced by its capital. The
  members read before the pair (the limit and the two numbers) are taken to decode; when
  one of them does not, \<^verbatim>\<open>from_json\<close> has thrown before it reaches the pair.
\<close>

theorem from_json_pair_splits_at_last_delimiter:
  assumes "at_key j ''pair'' = Inr (JString (b @ ''_'' @ q))" and "CHR ''_'' \<notin> set q"
  shows "(decodes_limit j \<and> decodes_double j ''rate'' \<and> decodes_double j ''miner_fee'' \<longrightarrow>
            (\<exists>m'. from_json_exchange_info j m = Inr m' \<and>
                  first (pair_e m') = upper_cased b \<and> second (pair_e m') = upper_cased q)) \<and>
         (decodes_limit j \<and> decodes_double j ''maker_fee'' \<and> decodes_double j ''taker_fee'' \<longrightarrow>
            (\<exists>k'. from_json_market_info j k = Inr k' \<and>
                  first (pair_m k') = upper_cased b \<and> second (pair_m k') = upper_cased q))"
proof (intro conjI impI)
  assume "decodes_limit j \<and> decodes_double j ''rate'' \<and> decodes_double j ''miner_fee''"
  then obtain m' where "from_json_exchange_info j m = Inr m'"
      and "pair_e m' = currency_pair_t_ctor b q"
    using from_json_exchange_info_pair[OF _ _ _ assms(1) split_pair_str_found[OF assms(2)]]
    by blast
  then show "\<exists>m'. from_json_exchange_info j m = Inr m' \<and>
      first (pair_e m') = upper_cased b \<and> second (pair_e m') = upper_cased q"
    by (simp add: ctor_first ctor_second toupper_upper_cased)
next
  assume "decodes_limit j \<and> decodes_double j ''maker_fee'' \<and> decodes_double j ''taker_fee''"
  then obtain k' where "from_json_market_info j k = Inr k'"
      and "pair_m k' = currency_pair_t_ctor b q"
    using from_json_market_info_pair[OF _ _ _ assms(1) split_pair_str_found[OF assms(2)]]
    by blast
  then show "\<exists>k'. from_json_market_info j k = Inr k' \<and>
      first (pair_m k') = upper_cased b \<and> second (pair_m k') = upper_cased q"
    by (simp add: ctor_first ctor_second toupper_upper_cased)
qed

text \<open>
  The pair string \<^verbatim>\<open>"btc_Eth_usd"\<close> gives \<^verbatim>\<open>"BTC_ETH"\<close> and \<^verbatim>\<open>"USD"\<close>, and so does
  \<^verbatim>\<open>"BTC_ETH_USD"\<close>.
\<close>

theorem from_json_pair_btc_eth_usd:
  "at_key (info_doc ''btc_Eth_usd'') ''pair'' = Inr (JString (''btc_Eth'' @ ''_'' @ ''usd'')) \<and>
   CHR ''_'' \<notin> set ''usd'' \<and>
   (\<exists>m'. from_json_exchange_info (info_doc ''btc_Eth_usd'') exchange_info_t_default = Inr m' \<and>
         first (pair_e m') = ''BTC_ETH'' \<and> second (pair_e m') = ''USD'') \<and>
   (\<exists>k'. from_json_market_info (info_doc ''btc_Eth_usd'') market_info_t_default = Inr k' \<and>
         first (pair_m k') = ''BTC_ETH'' \<and> second (pair_m k') = ''USD'') \<and>
   at_key (info_doc ''BTC_ETH_USD'') ''pair'' = Inr (JString (''BTC_ETH'' @ ''_'' @ ''USD'')) \<and>
   CHR ''_'' \<notin> set ''USD'' \<and>
   (\<exists>m'. from_json_exchange_info (info_doc ''BTC_ETH_USD'') exchange_info_t_default = Inr m' \<and>
         first (pair_e m') = ''BTC_ETH'' \<and> second (pair_e m') = ''USD'') \<and>
   (\<exists>k'. from_json_market_info (info_doc ''BTC_ETH_USD'') market_info_t_default = Inr k' \<and>
         first (pair_m k') = ''BTC_ETH'' \<and> second (pair_m k') = ''USD'')"
proof -
  have lower: "at_key (info_doc ''btc_Eth_usd'') ''pair'' = Inr (JString (''btc_Eth'' @ ''_'' @ ''usd''))"
      "CHR ''_'' \<notin> set ''usd''"
    by (simp_all add: info_doc_decodes)
  have upper: "at_key (info_doc ''BTC_ETH_USD'') ''pair'' = Inr (JString (''BTC_ETH'' @ ''_'' @ ''USD''))"
      "CHR ''_'' \<notin> set ''USD''"
    by (simp_all add: info_doc_decodes)
  have up: "upper_cased ''btc_Eth'' = ''BTC_ETH''" "upper_cased ''usd'' = ''USD''"
      "upper_cased ''BTC_ETH'' = ''BTC_ETH''" "upper_cased ''USD'' = ''USD''"
    by (simp_all add: upper_cased_def upper_letter_def)
  show ?thesis
    using from_json_pair_splits_at_last_delimiter[OF lower,
        of exchange_info_t_default market_info_t_default]
      from_json_pair_splits_at_last_delimiter[OF upper,
        of exchange_info_t_default market_info_t_default]
      lower upper info_doc_decodes[of "''btc_Eth_usd''"] info_doc_decodes[of "''BTC_ETH_USD''"]
    by (simp only: up HOL.simp_thms)
qed

text \<open>
  C3. For every document whose \<^verbatim>\<open>pair\<close> member is a string without \<^verbatim>\<open>_\<close> (such as
  \<^verbatim>\<open>"BTCUSD"\<close>), \<^verbatim>\<open>from_json\<close> for \<^verbatim>\<open>exchange_info_t\<close> and for \<^verbatim>\<open>market_info_t\<close> does not
  throw at the pair and leaves the pair member as it was: for the object that
  \<^verbatim>\<open>get<T>()\<close> passes, whose pair is default-constructed, \<^verbatim>\<open>first\<close> and \<^verbatim>\<open>second\<close> are
  empty. The members read before the pair are taken to decode.
\<close>

theorem from_json_pair_without_delimiter:
  assumes "at_key j ''pair'' = Inr (JString pair_str)" and "CHR ''_'' \<notin> set pair_str"
  shows "(decodes_limit j \<and> decodes_double j ''rate'' \<and> decodes_double j ''miner_fee'' \<longrightarrow>
            (\<exists>m'. from_json_exchange_info j m = Inr m' \<and> pair_e m' = pair_e m \<and>
                  (pair_e m = currency_pair_t_default \<longrightarrow>
                     first (pair_e m') = [] \<and> second (pair_e m') = []))) \<and>
         (decodes_limit j \<and> decodes_double j ''maker_fee'' \<and> decodes_double j ''taker_fee'' \<longrightarrow>
            (\<exists>k'. from_json_market_info j k = Inr k' \<and> pair_m k' = pair_m k \<and>
                  (pair_m k = currency_pair_t_default \<longrightarrow>
                     first (pair_m k') = [] \<and> second (pair_m k') = [])))"
proof (intro conjI impI)
  assume "decodes_limit j \<and> decodes_double j ''rate'' \<and> decodes_double j ''miner_fee''"
  then obtain m' where "from_json_exchange_info j m = Inr m'" and "pair_e m' = pair_e m"
    using from_json_exchange_info_pair[OF _ _ _ assms(1) split_pair_str_none[OF assms(2)]]
    by blast
  then show "\<exists>m'. from_json_exchange_info j m = Inr m' \<and> pair_e m' = pair_e m \<and>
      (pair_e m = currency_pair_t_default \<longrightarrow> first (pair_e m') = [] \<and> second (pair_e m') = [])"
    by (simp add: currency_pair_t_default_def)
next
  assume "decodes_limit j \<and> decodes_double j ''maker_fee'' \<and> decodes_double j ''taker_fee''"
  then obtain k' where "from_json_market_info j k = Inr k'" and "pair_m k' = pair_m k"
    using from_json_market_info_pair[OF _ _ _ assms(1) split_pair_str_none[OF assms(2)]]
    by blast
  then show "\<exists>k'. from_json_market_info j k = Inr k' \<and> pair_m k' = pair_m k \<and>
      (pair_m k = currency_pair_t_default \<longrightarrow> first (pair_m k') = [] \<and> second (pair_m k') = [])"
    by (simp add: currency_pair_t_default_def)
qed

text \<open>The pair string \<^verbatim>\<open>"BTCUSD"\<close> leaves the empty pair.\<close>

theorem from_json_pair_BTCUSD:
  "at_key (info_doc ''BTCUSD'') ''pair'' = Inr (JString ''BTCUSD'') \<and>
   CHR ''_'' \<notin> set ''BTCUSD'' \<and>
   (\<exists>m'. from_json_exchange_info (info_doc ''BTCUSD'') exchange_info_t_default = Inr m' \<and>
         first (pair_e m') = [] \<and> second (pair_e m') = []) \<and>
   (\<exists>k'. from_json_market_info (info_doc ''BTCUSD'') market_info_t_default = Inr k' \<and>
         first (pair_m k') = [] \<and> second (pair_m k') = [])"
proof -
  have hyp: "at_key (info_doc ''BTCUSD'') ''pair'' = Inr (JString ''BTCUSD'')"
      "CHR ''_'' \<notin> set ''BTCUSD''"
    by (simp_all add: info_doc_decodes)
  have dflt: "pair_e exchange_info_t_default = currency_pair_t_default"
      "pair_m market_info_t_default = currency_pair_t_default"
    by (simp_all add: exchange_info_t_default_def market_info_t_default_def)
  show ?thesis
    using from_json_pair_without_delimiter[OF hyp,
        of exchange_info_t_default market_info_t_default]
      hyp dflt info_doc_decodes[of "''BTCUSD''"]
    by blast
qed

text \<open>
  C10. The default-constructed pair has empty \<^verbatim>\<open>first\<close> and \<^verbatim>\<open>second\<close>, its \<^verbatim>\<open>str()\<close>
  is \<^verbatim>\<open>"_"\<close>, and that is what \<^verbatim>\<open><<\<close> writes for it. So an exchange info or market info decoded, into an object with a
  default-constructed pair, from a document whose pair string has no \<^verbatim>\<open>_\<close> is encoded
  with the \<^verbatim>\<open>pair\<close> member \<^verbatim>\<open>"_"\<close>.
\<close>

theorem default_pair_encodes_as_underscore:
  "first currency_pair_t_default = [] \<and> second currency_pair_t_default = [] \<and>
   str currency_pair_t_default = ''_'' \<and>
   ostream_currency_pair o_stream currency_pair_t_default = o_stream @ ''_'' \<and>
   (at_key j ''pair'' = Inr (JString pair_str) \<and> CHR ''_'' \<notin> set pair_str \<and>
    pair_e m = currency_pair_t_default \<and>
    decodes_limit j \<and> decodes_double j ''rate'' \<and> decodes_double j ''miner_fee'' \<longrightarrow>
      (\<exists>m'. from_json_exchange_info j m = Inr m' \<and>
            at_key (to_json_exchange_info m') ''pair'' = Inr (JString ''_''))) \<and>
   (at_key j ''pair'' = Inr (JString pair_str) \<and> CHR ''_'' \<notin> set pair_str \<and>
    pair_m k = currency_pair_t_default \<and>
    decodes_limit j \<and> decodes_double j ''maker_fee'' \<and> decodes_double j ''taker_fee'' \<longrightarrow>
      (\<exists>k'. from_json_market_info j k = Inr k' \<and>
            at_key (to_json_market_info k') ''pair'' = Inr (JString ''_'')))"
proof (intro conjI impI)
  show "first currency_pair_t_default = []" "second currency_pair_t_default = []"
    by (simp_all add: currency_pair_t_default_def)
  show "str currency_pair_t_default = ''_''"
    by (rule str_default)
  show "ostream_currency_pair o_stream currency_pair_t_default = o_stream @ ''_''"
    by (simp add: ostream_currency_pair_def str_default)
next
  assume a: "at_key j ''pair'' = Inr (JString pair_str) \<and> CHR ''_'' \<notin> set pair_str \<and>
    pair_e m = currency_pair_t_default \<and>
    decodes_limit j \<and> decodes_double j ''rate'' \<and> decodes_double j ''miner_fee''"
  then have "split_pair_str pair_str (pair_e m) = Inr currency_pair_t_default"
    by (simp add: split_pair_str_none)
  with a obtain m' where "from_json_exchange_info j m = Inr m'"
      and "pair_e m' = currency_pair_t_default"
    using from_json_exchange_info_pair[of j pair_str m currency_pair_t_default] by blast
  then show "\<exists>m'. from_json_exchange_info j m = Inr m' \<and>
      at_key (to_json_exchange_info m') ''pair'' = Inr (JString ''_'')"
    by (simp add: to_json_exchange_info_pair str_default)
next
  assume a: "at_key j ''pair'' = Inr (JString pair_str) \<and> CHR ''_'' \<notin> set pair_str \<and>
    pair_m k = currency_pair_t_default \<and>
    decodes_limit j \<and> decodes_double j ''maker_fee'' \<and> decodes_double j ''taker_fee''"
  then have "split_pair_str pair_str (pair_m k) = Inr currency_pair_t_default"
    by (simp add: split_pair_str_none)
  with a obtain k' where "from_json_market_info j k = Inr k'"
      and "pair_m k' = currency_pair_t_default"
    using from_json_market_info_pair[of j pair_str k currency_pair_t_default] by blast
  then show "\<exists>k'. from_json_market_info j k = Inr k' \<and>
      at_key (to_json_market_info k') ''pair'' = Inr (JString ''_'')"
    by (simp add: to_json_market_info_pair str_default)
qed

text \<open>Decoding the pair string \<^verbatim>\<open>"BTCUSD"\<close> and encoding the result gives the pair \<^verbatim>\<open>"_"\<close>.\<close>

theorem defaulted_pair_BTCUSD_encodes_as_underscore:
  "at_key (info_doc ''BTCUSD'') ''pair'' = Inr (JString ''BTCUSD'') \<and>
   CHR ''_'' \<notin> set ''BTCUSD'' \<and>
   pair_e exchange_info_t_default = currency_pair_t_default \<and>
   pair_m market_info_t_default = currency_pair_t_default \<and>
   (\<exists>m'. from_json_exchange_info (info_doc ''BTCUSD'') exchange_info_t_default = Inr m' \<and>
         at_key (to_json_exchange_info m') ''pair'' = Inr (JString ''_'')) \<and>
   (\<exists>k'. from_json_market_info (info_doc ''BTCUSD'') market_info_t_default = Inr k' \<and>
         at_key (to_json_market_info k') ''pair'' = Inr (JString ''_''))"
proof -
  have hyp: "at_key (info_doc ''BTCUSD'') ''pair'' = Inr (JString ''BTCUSD'')"
      "CHR ''_'' \<notin> set ''BTCUSD''"
    by (simp_all add: info_doc_decodes)
  have dflt: "pair_e exchange_info_t_default = currency_pair_t_default"
      "pair_m market_info_t_default = currency_pair_t_default"
    by (simp_all add: exchange_info_t_default_def market_info_t_default_def)
  show ?thesis
    using default_pair_encodes_as_underscore[where j = "info_doc ''BTCUSD''"
        and pair_str = "''BTCUSD''" and m = exchange_info_t_default
        and k = market_info_t_default and o_stream = "[]"]
      hyp dflt info_doc_decodes[of "''BTCUSD''"]
    by blast
qed

text \<open>
  C6. For all strings \<open>b\<close> and \<open>q\<close> with no \<^verbatim>\<open>_\<close> in \<open>q\<close> (so in particular when neither
  holds one): the display string of \<^verbatim>\<open>currency_pair_t(b, q)\<close>, split at its last \<^verbatim>\<open>_\<close> and
  passed to the constructor again, gives \<^verbatim>\<open>currency_pair_t(b, q)\<close> back, in the splitting
  statements alone and in both \<^verbatim>\<open>from_json\<close> functions that hold them.
\<close>

theorem pair_display_string_round_trip:
  assumes "CHR ''_'' \<notin> set q"
  shows "split_pair_str (str (currency_pair_t_ctor b q)) p = Inr (currency_pair_t_ctor b q) \<and>
    (at_key j ''pair'' = Inr (JString (str (currency_pair_t_ctor b q))) \<and>
     decodes_limit j \<and> decodes_double j ''rate'' \<and> decodes_double j ''miner_fee'' \<longrightarrow>
       (\<exists>m'. from_json_exchange_info j m = Inr m' \<and> pair_e m' = currency_pair_t_ctor b q)) \<and>
    (at_key j ''pair'' = Inr (JString (str (currency_pair_t_ctor b q))) \<and>
     decodes_limit j \<and> decodes_double j ''maker_fee'' \<and> decodes_double j ''taker_fee'' \<longrightarrow>
       (\<exists>k'. from_json_market_info j k = Inr k' \<and> pair_m k' = currency_pair_t_ctor b q))"
  using split_pair_str_of_str[OF assms]
    from_json_exchange_info_pair[of j "str (currency_pair_t_ctor b q)" m "currency_pair_t_ctor b q"]
    from_json_market_info_pair[of j "str (currency_pair_t_ctor b q)" k "currency_pair_t_ctor b q"]
  by blast

text \<open>The pair of \<^verbatim>\<open>"btc"\<close> and \<^verbatim>\<open>"usd"\<close>, displayed as \<^verbatim>\<open>"BTC_USD"\<close>, comes back.\<close>

theorem pair_btc_usd_round_trip:
  "CHR ''_'' \<notin> set ''btc'' \<and> CHR ''_'' \<notin> set ''usd'' \<and>
   str (currency_pair_t_ctor ''btc'' ''usd'') = ''BTC_USD'' \<and>
   split_pair_str ''BTC_USD'' currency_pair_t_default = Inr (currency_pair_t_ctor ''btc'' ''usd'') \<and>
   (\<exists>m'. from_json_exchange_info (info_doc ''BTC_USD'') exchange_info_t_default = Inr m' \<and>
         pair_e m' = currency_pair_t_ctor ''btc'' ''usd'') \<and>
   (\<exists>k'. from_json_market_info (info_doc ''BTC_USD'') market_info_t_default = Inr k' \<and>
         pair_m k' = currency_pair_t_ctor ''btc'' ''usd'')"
proof -
  have s: "str (currency_pair_t_ctor ''btc'' ''usd'') = ''BTC_USD''"
    by (simp add: str_ctor toupper_eval)
  have q: "CHR ''_'' \<notin> set ''usd''" and b: "CHR ''_'' \<notin> set ''btc''"
    by simp_all
  show ?thesis
    using pair_display_string_round_trip[OF q, of "''btc''" currency_pair_t_default
        "info_doc ''BTC_USD''" exchange_info_t_default market_info_t_default]
      q b info_doc_decodes[of "''BTC_USD''"]
    by (simp only: s HOL.simp_thms)
qed

section \<open>The numeric-or-null coercion\<close>

text \<open>
  C4. \<^verbatim>\<open>numeric_string\<close> returns the string of a string field unchanged and \<^verbatim>\<open>"0.0"\<close> for
  a null field; for every other field (a number, a boolean, an object, an array) it throws
  a \<^verbatim>\<open>runtime_error\<close> whose message holds the rendering of the field between
  \<^verbatim>\<open>"field "\<close> and \<^verbatim>\<open>" is not string or null"\<close>. The bare number 42 is such a field.
\<close>

theorem numeric_string_cases:
  "numeric_string dump (JString s) = Inr s \<and>
   numeric_string dump JNull = Inr ''0.0'' \<and>
   (\<not> is_string field \<and> \<not> is_null field \<longrightarrow>
      numeric_string dump field =
        Inl (runtime_error (''field '' @ dump field @ '' is not string or null''))) \<and>
   numeric_string dump (JInt 42) =
     Inl (runtime_error (''field '' @ dump (JInt 42) @ '' is not string or null''))"
  by (simp add: numeric_string_def is_string_def is_null_def get_string_def)

text \<open>With a rendering that writes 42 as \<^verbatim>\<open>42\<close>, the message for the number 42.\<close>

theorem numeric_string_of_42:
  "\<not> is_string (JInt 42) \<and> \<not> is_null (JInt 42) \<and>
   numeric_string (\<lambda>j. ''42'') (JInt 42) =
     Inl (runtime_error ''field 42 is not string or null'')"
  using numeric_string_cases[of "\<lambda>j. ''42''" "[]" "JInt 42"]
  by (simp add: is_string_def is_null_def)

section \<open>The status labels\<close>

text \<open>
  C5. Writing each of the nine enumerators of \<^verbatim>\<open>status_t\<close> on a stream appends its label:
  \<^verbatim>\<open>no_deposists\<close>, \<^verbatim>\<open>initial\<close>, \<^verbatim>\<open>received\<close>, \<^verbatim>\<open>complete\<close>, \<^verbatim>\<open>settled\<close>, \<^verbatim>\<open>pending\<close>,
  \<^verbatim>\<open>failed\<close>, \<^verbatim>\<open>partial\<close>, \<^verbatim>\<open>expired\<close>. The enumerator \<^verbatim>\<open>expired\<close> and every value that
  is none of the first eight take the \<^verbatim>\<open>default\<close> case and give \<^verbatim>\<open>expired\<close>.
\<close>

theorem ostream_status_labels:
  "ostream_status o_stream no_deposists = o_stream @ ''no_deposists'' \<and>
   ostream_status o_stream initial = o_stream @ ''initial'' \<and>
   ostream_status o_stream received = o_stream @ ''received'' \<and>
   ostream_status o_stream complete = o_stream @ ''complete'' \<and>
   ostream_status o_stream settled = o_stream @ ''settled'' \<and>
   ostream_status o_stream pending = o_stream @ ''pending'' \<and>
   ostream_status o_stream failed = o_stream @ ''failed'' \<and>
   ostream_status o_stream partial = o_stream @ ''partial'' \<and>
   ostream_status o_stream expired = o_stream @ ''expired'' \<and>
   (s \<notin> {no_deposists, initial, received, complete, settled, pending, failed, partial} \<longrightarrow>
      ostream_status o_stream s = o_stream @ ''expired'')"
  by (simp add: ostream_status_def no_deposists_def initial_def received_def complete_def
      settled_def pending_def failed_def partial_def expired_def)

text \<open>The value \<^verbatim>\<open>'z'\<close>, which is no enumerator, is written as \<^verbatim>\<open>expired\<close>.\<close>

theorem ostream_status_of_z:
  "CHR ''z'' \<notin> {no_deposists, initial, received, complete, settled, pending, failed, partial} \<and>
   ostream_status [] (CHR ''z'') = ''expired''"
  using ostream_status_labels[of "[]" "CHR ''z''"]
  by (simp add: no_deposists_def initial_def received_def complete_def
      settled_def pending_def failed_def partial_def)

section \<open>The pair decoded from a two-element array\<close>

text \<open>
  C2. \<^verbatim>\<open>from_json\<close> for \<^verbatim>\<open>currency_pair_t\<close> takes element 0 of a two-element array of
  strings as \<^verbatim>\<open>first\<close> and element 1 as \<^verbatim>\<open>second\<close>. It assigns the members directly and
  does not go through the constructor, so the strings are stored as they are in the
  document, not upper-cased: \<^verbatim>\<open>["btc", "usd"]\<close> gives \<^verbatim>\<open>btc\<close> and \<^verbatim>\<open>usd\<close>, where the
  constructor (and with it the decoding from a delimited string) gives \<^verbatim>\<open>BTC\<close> and
  \<^verbatim>\<open>USD\<close>.
\<close>

theorem from_json_currency_pair_keeps_case:
  "from_json_currency_pair (JArray [JString a, JString b]) c = Inr (c\<lparr>first := a, second := b\<rparr>) \<and>
   from_json_currency_pair (JArray [JString ''btc'', JString ''usd'']) currency_pair_t_default =
     Inr \<lparr>priv_pair = ([], []), first = ''btc'', second = ''usd''\<rparr> \<and>
   toupper ''btc'' = ''BTC'' \<and> toupper ''usd'' = ''USD'' \<and>
   first (currency_pair_t_ctor ''btc'' ''usd'') = ''BTC'' \<and>
   second (currency_pair_t_ctor ''btc'' ''usd'') = ''USD''"
  by (simp add: from_json_currency_pair_def at_index_def get_string_def bindE_def
      currency_pair_t_default_def ctor_first ctor_second toupper_eval)

section \<open>Absent keys\<close>

lemma at_key_absent: "map_of m key = None \<Longrightarrow> at_key (JObject m) key = Inl (key_not_found key)"
  by (simp add: at_key_def)

text \<open>The functions that read with \<^verbatim>\<open>at\<close> name the first absent key.\<close>

lemma from_json_deposit_limit_without_min:
  "map_of n ''min'' = None \<Longrightarrow> from_json_deposit_limit (JObject n) d = Inl (key_not_found ''min'')"
  by (simp add: from_json_deposit_limit_def at_key_def bindE_def)

lemma from_json_exchange_info_without_limit:
  "map_of n ''limit'' = None \<Longrightarrow>
     from_json_exchange_info (JObject n) m = Inl (key_not_found ''limit'')"
  by (simp add: from_json_exchange_info_def at_key_def bindE_def)

lemma from_json_market_info_without_limit:
  "map_of n ''limit'' = None \<Longrightarrow>
     from_json_market_info (JObject n) m = Inl (key_not_found ''limit'')"
  by (simp add: from_json_market_info_def at_key_def bindE_def)

text \<open>
  C7. \<^verbatim>\<open>from_json\<close> for \<^verbatim>\<open>deposit_info_t\<close> reads \<^verbatim>\<open>j["limit"]\<close> with the unchecked
  \<^verbatim>\<open>operator[]\<close> of a \<^verbatim>\<open>const json\<close>. On a document without the key \<^verbatim>\<open>limit\<close> no exception
  names the key: the assertion of the library fails.
\<close>

theorem from_json_deposit_info_without_limit:
  "map_of n ''limit'' = None \<Longrightarrow>
     from_json_deposit_info (JObject n) d = Inl (assertion_failure ''limit'')"
  by (simp add: from_json_deposit_info_def index_const_def bindE_def)

text \<open>The document \<^verbatim>\<open>{"fee": 0.0, "currency": "BTC", "method": "wire"}\<close>.\<close>

theorem from_json_deposit_info_without_limit_example:
  "map_of [(''fee'', JFloat double_zero), (''currency'', JString ''BTC''),
           (''method'', JString ''wire'')] ''limit'' = None \<and>
   from_json_deposit_info
     (JObject [(''fee'', JFloat double_zero), (''currency'', JString ''BTC''),
               (''method'', JString ''wire'')]) deposit_info_t_default =
   Inl (assertion_failure ''limit'')"
  using from_json_deposit_info_without_limit[of
      "[(''fee'', JFloat double_zero), (''currency'', JString ''BTC''),
        (''method'', JString ''wire'')]" deposit_info_t_default]
  by simp

section \<open>Encoding a hash\<close>

text \<open>
  C8. \<^verbatim>\<open>to_json\<close> for \<^verbatim>\<open>hash_t\<close> parses the hash as JSON text. For a hash that the parser
  rejects, the encoding throws the parser's error.
\<close>

theorem to_json_hash_parse_error:
  "parse a = Inl e \<Longrightarrow> to_json_hash parse a = Inl e"
  by (simp add: to_json_hash_def)

text \<open>With a parser that rejects the text \<^verbatim>\<open>deadbeef\<close>.\<close>

theorem to_json_hash_of_deadbeef:
  "(\<lambda>text. if text = ''deadbeef'' then Inl (parse_error text) else Inr (JString text)) ''deadbeef''
     = Inl (parse_error ''deadbeef'') \<and>
   to_json_hash (\<lambda>text. if text = ''deadbeef'' then Inl (parse_error text) else Inr (JString text))
     ''deadbeef'' = Inl (parse_error ''deadbeef'')"
  using to_json_hash_parse_error[of
      "\<lambda>text. if text = ''deadbeef'' then Inl (parse_error text) else Inr (JString text)"
      "''deadbeef''" "parse_error ''deadbeef''"]
  by simp

section \<open>The round trip of a deposit info\<close>

subsection \<open>An integer converted to a double is not NaN\<close>

lemma bit_length_le: "m < 2 ^ k \<Longrightarrow> bit_length m \<le> k"
proof (induction k arbitrary: m)
  case 0
  then have "m = 0" by simp
  then show ?case by (simp add: bit_length.simps[of 0])
next
  case (Suc k)
  then have "m div 2 < 2 ^ k" by simp
  then have "bit_length (m div 2) \<le> k" by (rule Suc.IH)
  then show ?case by (simp add: bit_length.simps[of m])
qed

lemma exponent_not_all_ones: "x < 2047 \<Longrightarrow> (of_nat x :: 11 word) \<noteq> 2047"
proof
  assume x: "x < 2047" and eq: "(of_nat x :: 11 word) = 2047"
  have "unat (of_nat x :: 11 word) = x"
    using x by (simp add: unat_of_nat)
  moreover have "unat (2047 :: 11 word) = 2047"
    by simp
  ultimately show False
    using x eq by simp
qed

lemma double_of_magnitude_not_nan:
  assumes "m < 2 ^ 64"
  shows "\<not> isnan (double_of_magnitude s m)"
proof -
  have "bit_length m \<le> 64"
    using assms by (rule bit_length_le)
  then have "bit_length m - 1 + 1 + 1023 < 2047" "bit_length m - 1 + 1023 < 2047"
    by simp_all
  then have "(of_nat (bit_length m - 1 + 1 + 1023) :: 11 word) \<noteq> 2047"
      "(of_nat (bit_length m - 1 + 1023) :: 11 word) \<noteq> 2047"
    by (simp_all only: exponent_not_all_ones not_False_eq_True)
  then show ?thesis
    by (simp add: isnan_def double_of_magnitude_def Let_def)
qed

lemma double_of_uint64_not_nan: "\<not> isnan (double_of_uint64 w)"
proof -
  have "unat w < 2 ^ 64"
    using unsigned_less[of w] by simp
  then show ?thesis
    unfolding double_of_uint64_def by (rule double_of_magnitude_not_nan)
qed

lemma double_of_int64_not_nan: "\<not> isnan (double_of_int64 w)"
proof -
  have lo: "- (2 ^ 63) \<le> sint w" and hi: "sint w < 2 ^ 63"
    using sint_ge[of w] sint_lt[of w] by simp_all
  have "nat (- sint w) < 2 ^ 64" "nat (sint w) < 2 ^ 64"
    using lo hi by simp_all
  then show ?thesis
    unfolding double_of_int64_def by (simp add: double_of_magnitude_not_nan)
qed

lemma double_eq_refl: "\<not> isnan d \<Longrightarrow> double_eq d d"
  by (simp add: double_eq_def)

text \<open>
  The conversion on some integers: 42 is exact; \<open>2 ^ 53 + 1\<close> is a tie and goes to the
  even neighbour \<open>2 ^ 53\<close>; \<open>2 ^ 53 + 3\<close> goes to \<open>2 ^ 53 + 4\<close>; the greatest
  \<^verbatim>\<open>uint64_t\<close> goes to \<open>2 ^ 64\<close>.
\<close>

lemma bit_length_numeral:
  "bit_length 0 = 0"
  "bit_length (Suc 0) = Suc 0"
  "bit_length (numeral (Num.Bit0 n)) = Suc (bit_length (numeral n))"
  "bit_length (numeral (Num.Bit1 n)) = Suc (bit_length (numeral n))"
proof -
  show z: "bit_length 0 = 0"
    by (simp add: bit_length.simps[of 0])
  show "bit_length (Suc 0) = Suc 0"
    by (subst bit_length.simps) (simp add: z)
  show "bit_length (numeral (Num.Bit0 n)) = Suc (bit_length (numeral n))"
    by (subst bit_length.simps) (simp add: numeral_Bit0_div_2)
  show "bit_length (numeral (Num.Bit1 n)) = Suc (bit_length (numeral n))"
    by (subst bit_length.simps) (simp add: numeral_Bit1_div_2)
qed

lemmas double_eval = double_of_int64_def double_of_uint64_def double_of_magnitude_def
  round_half_even_def Let_def bit_length_numeral

lemma double_of_int64_42:
  "double_of_int64 42 = \<lparr>sign = False, exponent = 1028, fraction = 0x5000000000000\<rparr>"
  by (simp add: double_eval)

lemma double_of_int64_minus_1:
  "double_of_int64 (- 1) = \<lparr>sign = True, exponent = 1023, fraction = 0\<rparr>"
  by (simp add: double_eval)


lemma double_of_uint64_round_up:
  "double_of_uint64 9007199254740995 = \<lparr>sign = False, exponent = 1076, fraction = 2\<rparr>"
  by (simp add: double_eval)

lemma double_of_uint64_max:
  "double_of_uint64 18446744073709551615 = \<lparr>sign = False, exponent = 1087, fraction = 0\<rparr>"
  by (simp add: double_eval)

subsection \<open>The conversion is exact on the integers that fit a double\<close>








text \<open>\<open>2 ^ 53 + 1\<close> does not fit, and the double it is converted to is not its value.\<close>

lemma two_53_plus_1_does_not_fit: "\<not> fits_double 9007199254740993"
  by (simp add: fits_double_def bit_length_numeral)

subsection \<open>Members of a well-formed document\<close>

lemma is_number_get_double:
  assumes "is_number v"
  obtains x where "get_double v = Inr x" and "json_eq (JFloat x) v"
  using assms
  by (cases v)
     (auto simp: is_number_def get_double_def double_eq_refl
        double_of_int64_not_nan double_of_uint64_not_nan)

lemma is_string_get_string:
  assumes "is_string v"
  obtains s where "get_string v = Inr s" and "v = JString s"
  using assms by (cases v) (auto simp: is_string_def get_string_def)

lemma field_isE:
  assumes "field_is P m key"
  obtains v where "map_of m key = Some v" and "P v"
  using assms by (auto simp: field_is_def split: option.splits)

lemma to_json_deposit_limit_object:
  "to_json_deposit_limit d = JObject [(''min'', JFloat (min_l d)), (''max'', JFloat (max_l d))]"
  by (simp add: to_json_deposit_limit_def json_init_def)

lemma to_json_deposit_info_object:
  "to_json_deposit_info d =
     JObject [(''limit'', to_json_deposit_limit (limit d)), (''fee'', JFloat (fee d)),
              (''currency'', JString (currency d)), (''method'', JString (method_d d))]"
  by (simp add: to_json_deposit_info_def json_init_def)

lemma deposit_limit_doc_round_trip:
  assumes "is_deposit_limit_doc l"
  obtains x0 x1 where "bindE (index_const l ''max'') get_double = Inr x0"
    and "bindE (index_const l ''min'') get_double = Inr x1"
    and "json_eq (to_json_deposit_limit \<lparr>min_l = x1, max_l = x0\<rparr>) l"
proof -
  from assms obtain n where l: "l = JObject n"
    and keys: "set (map fst n) = {''min'', ''max''}"
    and fmin: "field_is is_number n ''min''" and fmax: "field_is is_number n ''max''"
    by (cases l) (auto simp: is_deposit_limit_doc_def)
  from fmin obtain vmin where vmin: "map_of n ''min'' = Some vmin" "is_number vmin"
    by (rule field_isE)
  from fmax obtain vmax where vmax: "map_of n ''max'' = Some vmax" "is_number vmax"
    by (rule field_isE)
  from vmin(2) obtain x1 where x1: "get_double vmin = Inr x1" "json_eq (JFloat x1) vmin"
    by (rule is_number_get_double)
  from vmax(2) obtain x0 where x0: "get_double vmax = Inr x0" "json_eq (JFloat x0) vmax"
    by (rule is_number_get_double)
  have "bindE (index_const l ''max'') get_double = Inr x0"
    using l vmax(1) x0(1) by (simp add: index_const_def bindE_def)
  moreover have "bindE (index_const l ''min'') get_double = Inr x1"
    using l vmin(1) x1(1) by (simp add: index_const_def bindE_def)
  moreover have "json_eq (to_json_deposit_limit \<lparr>min_l = x1, max_l = x0\<rparr>) l"
    using l keys vmin(1) vmax(1) x0(2) x1(2)
    by (simp add: to_json_deposit_limit_object)
  ultimately show thesis
    by (rule that)
qed

text \<open>
  With the limit present and well-formed, a document without \<^verbatim>\<open>fee\<close> makes \<^verbatim>\<open>from_json\<close>
  for \<^verbatim>\<open>deposit_info_t\<close> throw the \<^verbatim>\<open>out_of_range\<close> that names \<^verbatim>\<open>fee\<close>.
\<close>

lemma from_json_deposit_info_without_fee:
  assumes "map_of n ''limit'' = Some l" and "is_deposit_limit_doc l"
    and "map_of n ''fee'' = None"
  shows "from_json_deposit_info (JObject n) d = Inl (key_not_found ''fee'')"
proof -
  from assms(2) obtain x0 x1 where "bindE (index_const l ''max'') get_double = Inr x0"
    and "bindE (index_const l ''min'') get_double = Inr x1"
    by (rule deposit_limit_doc_round_trip)
  then show ?thesis
    using assms(1,3)
    by (auto simp: from_json_deposit_info_def index_const_def at_key_def bindE_def
        split: sum.splits)
qed

subsection \<open>The round trip under the comparison of the library\<close>

text \<open>
  Under \<^verbatim>\<open>operator==\<close> of the document type, which converts an integer to \<^verbatim>\<open>double\<close>
  before it compares it with a double, the re-encoded document is equal to every
  well-formed original, also where a number has changed.
\<close>

lemma deposit_info_round_trip_library_eq:
  assumes "is_deposit_info_doc doc"
  shows "\<exists>d'. from_json_deposit_info doc d = Inr d' \<and> json_eq (to_json_deposit_info d') doc"
proof -
  from assms obtain n where doc: "doc = JObject n"
    and keys: "set (map fst n) = {''limit'', ''fee'', ''currency'', ''method''}"
    and flimit: "field_is is_deposit_limit_doc n ''limit''"
    and ffee: "field_is is_number n ''fee''"
    and fcur: "field_is is_string n ''currency''"
    and fmeth: "field_is is_string n ''method''"
    by (cases doc) (auto simp: is_deposit_info_doc_def)
  from flimit obtain l where l: "map_of n ''limit'' = Some l" "is_deposit_limit_doc l"
    by (rule field_isE)
  from ffee obtain vfee where vfee: "map_of n ''fee'' = Some vfee" "is_number vfee"
    by (rule field_isE)
  from fcur obtain vcur where vcur: "map_of n ''currency'' = Some vcur" "is_string vcur"
    by (rule field_isE)
  from fmeth obtain vmeth where vmeth: "map_of n ''method'' = Some vmeth" "is_string vmeth"
    by (rule field_isE)
  from l(2) obtain x0 x1 where x0: "bindE (index_const l ''max'') get_double = Inr x0"
    and x1: "bindE (index_const l ''min'') get_double = Inr x1"
    and leq: "json_eq (to_json_deposit_limit \<lparr>min_l = x1, max_l = x0\<rparr>) l"
    by (rule deposit_limit_doc_round_trip)
  from vfee(2) obtain x2 where x2: "get_double vfee = Inr x2" "json_eq (JFloat x2) vfee"
    by (rule is_number_get_double)
  from vcur(2) obtain s3 where s3: "get_string vcur = Inr s3" "vcur = JString s3"
    by (rule is_string_get_string)
  from vmeth(2) obtain s4 where s4: "get_string vmeth = Inr s4" "vmeth = JString s4"
    by (rule is_string_get_string)
  let ?d = "d\<lparr>limit := (limit d)\<lparr>max_l := x0, min_l := x1\<rparr>,
                fee := x2, currency := s3, method_d := s4\<rparr>"
  have dec: "from_json_deposit_info doc d = Inr ?d"
    using doc l(1) vfee(1) vcur(1) vmeth(1) x0 x1 x2(1) s3(1) s4(1)
    by (auto simp: from_json_deposit_info_def index_const_def at_key_def bindE_def
        split: sum.splits)
  have lim: "limit ?d = \<lparr>min_l = x1, max_l = x0\<rparr>"
    by simp
  have "json_eq (to_json_deposit_info ?d) doc"
    unfolding to_json_deposit_info_object lim
    using doc keys l(1) vfee(1) vcur(1) vmeth(1) leq x2(2) s3(2) s4(2)
    by simp
  with dec show ?thesis
    by blast
qed

subsection \<open>The round trip\<close>







end
